theory Spec2Isabelle
  imports Main
begin

section \<open>Python values, exceptions and effects\<close>

text \<open>
  The handlers of the repository are Python static methods over boto3 clients. Their
  model keeps what Python does at run time: dynamically typed values, exceptions as
  values of a sum type, and every effect (a log record, a line on stdout, a call on a
  boto3 client, a database query, a CDK construct) as an event of a trace.
\<close>

datatype pyval =
    PNone
  | PBool bool
  | PInt int
  | PStr string
  | PList "pyval list"
  | PDict "(string \<times> pyval) list"

text \<open>Python's truth value of an object, as \<^verbatim>\<open>if account_id:\<close> tests it.\<close>

fun truthy :: "pyval \<Rightarrow> bool" where
  "truthy PNone = False"
| "truthy (PBool b) = b"
| "truthy (PInt i) = (i \<noteq> 0)"
| "truthy (PStr s) = (s \<noteq> [])"
| "truthy (PList xs) = (xs \<noteq> [])"
| "truthy (PDict kvs) = (kvs \<noteq> [])"

text \<open>
  The exception classes the code meets. All of them are subclasses of Python's
  \<^verbatim>\<open>Exception\<close>; \<open>OtherException\<close> stands for any further subclass (a botocore
  connection or validation error, for instance). The string is \<^verbatim>\<open>str(e)\<close>.
\<close>

datatype exn_class =
    ClientError
  | TypeError
  | NameError
  | AttributeError
  | KeyError
  | ObjectNotFound
  | OtherException

datatype exn = Exn exn_class string

fun exn_class_of :: "exn \<Rightarrow> exn_class" where
  "exn_class_of (Exn c m) = c"

fun exn_msg :: "exn \<Rightarrow> string" where
  "exn_msg (Exn c m) = m"

text \<open>\<^verbatim>\<open>except Exception\<close> and \<^verbatim>\<open>except ClientError\<close>.\<close>

definition catch_Exception :: "exn \<Rightarrow> bool" where
  "catch_Exception e = True"

definition catch_ClientError :: "exn \<Rightarrow> bool" where
  "catch_ClientError e = (exn_class_of e = ClientError)"

datatype log_level = INFO | WARNING | ERROR

datatype session = Session string

text \<open>A boto3 client: the session it was made from, the service name and the keyword
  arguments of \<^verbatim>\<open>session.client(...)\<close>.\<close>

datatype client = Client session pyval "(string \<times> pyval) list"

datatype event =
    Log log_level string
  | Print string
  | ClientCall client string "pyval list" "(string \<times> pyval) list"
  | DbQuery string string
  | ApiCall string "(string \<times> pyval) list"
  | Construct string string "(string \<times> pyval) list"
  | FileOpenWrite string
  | FileWrite string string
  | FileRemove string
  | MakeArchive string string string
  | FileMove string string

text \<open>A computation: the events it emitted, and the exception it raised or the value
  it returned.\<close>

type_synonym 'a prog = "event list \<times> (exn + 'a)"

definition pret :: "'a \<Rightarrow> 'a prog" where
  "pret v = ([], Inr v)"

definition praise :: "exn \<Rightarrow> 'a prog" where
  "praise e = ([], Inl e)"

definition lift :: "exn + 'a \<Rightarrow> 'a prog" where
  "lift r = ([], r)"

definition emit :: "event \<Rightarrow> unit prog" where
  "emit ev = ([ev], Inr ())"

definition pbind :: "'a prog \<Rightarrow> ('a \<Rightarrow> 'b prog) \<Rightarrow> 'b prog" where
  "pbind m f =
     (case m of
        (evs, Inl e) \<Rightarrow> (evs, Inl e)
      | (evs, Inr v) \<Rightarrow> (case f v of (evs', r) \<Rightarrow> (evs @ evs', r)))"

text \<open>
  \<^verbatim>\<open>try: body  except C as e: handler  else: orelse\<close>. An exception of the body
  that the clause does not catch propagates; so does one raised by the handler or by
  the else block.
\<close>

definition try_except_else ::
  "'a prog \<Rightarrow> (exn \<Rightarrow> bool) \<Rightarrow> (exn \<Rightarrow> 'b prog) \<Rightarrow> ('a \<Rightarrow> 'b prog) \<Rightarrow> 'b prog" where
  "try_except_else body catches handler orelse =
     (case body of
        (evs, Inr v) \<Rightarrow> (case orelse v of (evs', r) \<Rightarrow> (evs @ evs', r))
      | (evs, Inl e) \<Rightarrow>
          (if catches e then (case handler e of (evs', r) \<Rightarrow> (evs @ evs', r))
           else (evs, Inl e)))"

definition try_except :: "'a prog \<Rightarrow> (exn \<Rightarrow> bool) \<Rightarrow> (exn \<Rightarrow> 'a prog) \<Rightarrow> 'a prog" where
  "try_except body catches handler = try_except_else body catches handler pret"


fun is_ClientCall :: "event \<Rightarrow> bool" where
  "is_ClientCall (ClientCall c operation args kwargs) = True"
| "is_ClientCall ev = False"


definition client_calls :: "event list \<Rightarrow> event list" where
  "client_calls evs = filter is_ClientCall evs"

subsection \<open>Calling a Python function\<close>

text \<open>
  How Python binds the arguments of a call to the parameters of a \<^verbatim>\<open>def\<close>
  (\<open>required\<close> are the parameters with no default, \<open>defaults\<close> those with one): the
  positional arguments fill the parameters from the left, each keyword must name a
  parameter not yet filled, and every required parameter must end up filled. Any
  violation raises \<^verbatim>\<open>TypeError\<close> before the body runs.
\<close>

definition py_bind ::
  "string \<Rightarrow> string list \<Rightarrow> (string \<times> pyval) list \<Rightarrow> pyval list \<Rightarrow> (string \<times> pyval) list
     \<Rightarrow> exn + (string \<times> pyval) list" where
  "py_bind fname required defaults args kwargs =
     (let params = required @ map fst defaults;
          positional = zip params args;
          offending =
            filter (\<lambda>k. k \<in> set (map fst positional) \<or> k \<notin> set params) (map fst kwargs);
          bound = positional @ kwargs;
          missing = filter (\<lambda>p. p \<notin> set (map fst bound)) required
      in case offending of
           k # ks \<Rightarrow>
             Inl (Exn TypeError
               (fname @
                (if k \<in> set params then ''() got multiple values for argument ''
                 else ''() got an unexpected keyword argument '') @ k))
         | [] \<Rightarrow>
             (if length params < length args
              then Inl (Exn TypeError (fname @ ''() takes too many positional arguments''))
              else if missing \<noteq> []
              then Inl (Exn TypeError
                     (fname @ ''() missing required positional arguments:'' @
                      concat (map (\<lambda>m. '' '' @ m) missing)))
              else Inr (bound @ filter (\<lambda>kv. fst kv \<notin> set (map fst bound)) defaults)))"

definition arg :: "(string \<times> pyval) list \<Rightarrow> string \<Rightarrow> pyval" where
  "arg b k = (case map_of b k of Some v \<Rightarrow> v | None \<Rightarrow> PNone)"

text \<open>Looking a name up in a module's global namespace: \<^verbatim>\<open>NameError\<close> when the
  module never bound it.\<close>

definition global_name :: "string list \<Rightarrow> string \<Rightarrow> unit prog" where
  "global_name globals n =
     (if n \<in> set globals then pret ()
      else praise (Exn NameError (''name '' @ n @ '' is not defined'')))"

text \<open>\<^verbatim>\<open>d[k]\<close> on a response.\<close>

fun subscript :: "pyval \<Rightarrow> string \<Rightarrow> pyval prog" where
  "subscript (PDict kvs) k =
     (case map_of kvs k of None \<Rightarrow> praise (Exn KeyError k) | Some v \<Rightarrow> pret v)"
| "subscript v k = praise (Exn TypeError ''object is not subscriptable'')"

text \<open>Reading a key of a dictionary, for statements about a returned value.\<close>

fun dict_get :: "pyval \<Rightarrow> string \<Rightarrow> pyval option" where
  "dict_get (PDict kvs) k = map_of kvs k"
| "dict_get v k = None"

section \<open>The AWS side\<close>

text \<open>
  What lies outside the handlers: \<^verbatim>\<open>SessionHelper\<close> (module \<^verbatim>\<open>sts\<close>, not among the
  sources), the AWS services behind a boto3 client, and Python's \<^verbatim>\<open>str\<close> and
  \<^verbatim>\<open>json.dumps\<close> on a response. Each is a parameter: \<open>client_api w c operation args kwargs\<close> is
  what the service answers (or raises) when the code calls \<^verbatim>\<open>c.operation(*args, **kwargs)\<close>.
\<close>

record aws_world =
  remote_session :: "(string \<times> pyval) list \<Rightarrow> exn + session"
  get_session :: "exn + session"
  client_api :: "client \<Rightarrow> string \<Rightarrow> pyval list \<Rightarrow> (string \<times> pyval) list \<Rightarrow> exn + pyval"
  str_of :: "pyval \<Rightarrow> string"
  json_dumps :: "pyval \<Rightarrow> string"

definition client_call ::
  "aws_world \<Rightarrow> client \<Rightarrow> string \<Rightarrow> pyval list \<Rightarrow> (string \<times> pyval) list \<Rightarrow> pyval prog" where
  "client_call w c operation args kwargs =
     ([ClientCall c operation args kwargs], client_api w c operation args kwargs)"

section \<open>aws/handlers/s3.py\<close>

text \<open>The names module \<^verbatim>\<open>s3\<close> binds: its imports, \<^verbatim>\<open>log\<close> and the class.\<close>

definition s3_globals :: "string list" where
  "s3_globals =
     [''logging'', ''ClientError'', ''Config'', ''db'', ''models'', ''Worker'',
      ''SessionHelper'', ''log'', ''S3'']"

text \<open>
  \<^verbatim>\<open>def client(account_id: str, region: str, client_type: str, config)\<close>: four
  parameters, none with a default.
\<close>

definition S3_client :: "aws_world \<Rightarrow> pyval list \<Rightarrow> (string \<times> pyval) list \<Rightarrow> client prog" where
  "S3_client w args kwargs =
     pbind (lift (py_bind ''client'' [''account_id'', ''region'', ''client_type'', ''config'']
                     [] args kwargs)) (\<lambda>b.
       if truthy (arg b ''account_id'')
       then pbind (lift (remote_session w [(''accountid'', arg b ''account_id'')])) (\<lambda>session.
              pret (Client session (arg b ''client_type'')
                      [(''region_name'', arg b ''region'')]))
       else pbind (emit (Log INFO ''S3 session in central account'')) (\<lambda>u.
            pbind (lift (get_session w)) (\<lambda>session.
              pret (Client session (PStr ''s3'')
                      [(''region_name'', arg b ''region''), (''config'', arg b ''config'')]))))"

text \<open>The two \<^verbatim>\<open>TypeError\<close>s the calls of \<^verbatim>\<open>S3.client\<close> in this module end in.\<close>

definition missing_config :: exn where
  "missing_config = Exn TypeError ''client() missing required positional arguments: config''"

definition missing_account_and_type :: exn where
  "missing_account_and_type =
     Exn TypeError ''client() missing required positional arguments: account_id client_type''"

text \<open>\<^verbatim>\<open>Config(signature_version='s3v4', s3={'addressing_style': 'virtual'})\<close>\<close>

definition presign_config :: pyval where
  "presign_config =
     PDict [(''signature_version'', PStr ''s3v4''),
            (''s3'', PDict [(''addressing_style'', PStr ''virtual'')])]"

definition get_presigned_url :: "aws_world \<Rightarrow> string \<Rightarrow> string \<Rightarrow> string \<Rightarrow> pyval prog" where
  "get_presigned_url w region bucket key =
     pbind (S3_client w [] [(''region'', PStr region), (''config'', presign_config)])
       (\<lambda>s3_client.
     try_except
       (client_call w s3_client ''generate_presigned_url'' [PStr ''get_object'']
          [(''Params'', PDict [(''Bucket'', PStr bucket), (''Key'', PStr key)]),
           (''ExpiresIn'', PInt (15 * 60))])
       catch_ClientError
       (\<lambda>e. pbind (emit (Log ERROR
                (''Failed to get presigned URL for pivot role template due to: '' @ exn_msg e)))
              (\<lambda>u. praise e)))"

text \<open>The \<^verbatim>\<open>try\<close> statement of \<^verbatim>\<open>get_presigned_post\<close>, for a client already made.\<close>

definition get_presigned_post_try ::
  "aws_world \<Rightarrow> client \<Rightarrow> string \<Rightarrow> string \<Rightarrow> string \<Rightarrow> pyval prog" where
  "get_presigned_post_try w s3_client account_id bucket key =
     try_except
       (pbind (client_call w s3_client ''get_bucket_acl'' []
                 [(''Bucket'', PStr bucket), (''ExpectedBucketOwner'', PStr account_id)]) (\<lambda>acl.
        pbind (client_call w s3_client ''generate_presigned_post'' []
                 [(''Bucket'', PStr bucket), (''Key'', PStr key), (''ExpiresIn'', PInt (15 * 60))])
          (\<lambda>response.
        pbind (global_name s3_globals ''json'') (\<lambda>u.
        pret (PStr (json_dumps w response))))))
       catch_ClientError
       (\<lambda>e. praise e)"

definition get_presigned_post ::
  "aws_world \<Rightarrow> string \<Rightarrow> string \<Rightarrow> string \<Rightarrow> string \<Rightarrow> pyval prog" where
  "get_presigned_post w account_id region bucket key =
     pbind (S3_client w [] [(''region'', PStr region), (''config'', presign_config)])
       (\<lambda>s3_client. get_presigned_post_try w s3_client account_id bucket key)"

record DatasetStorageLocation =
  locationUri :: string
  AWSAccountId :: string
  location_region :: string
  S3BucketName :: string
  S3Prefix :: string
  locationCreated :: bool

text \<open>
  \<^verbatim>\<open>create_bucket_prefix\<close> mutates its argument: the model returns the location as
  the call leaves it, next to the trace and the outcome. The assignment
  \<^verbatim>\<open>location.locationCreated = True\<close> is the last statement of the \<^verbatim>\<open>try\<close> body.
\<close>

definition create_bucket_prefix ::
  "aws_world \<Rightarrow> DatasetStorageLocation \<Rightarrow> DatasetStorageLocation \<times> unit prog" where
  "create_bucket_prefix w location =
     (let accountid = AWSAccountId location;
          region = location_region location
      in case pbind (S3_client w []
                       [(''account_id'', PStr accountid), (''region'', PStr region),
                        (''client_type'', PStr ''s3'')]) (\<lambda>s3cli.
              pbind (client_call w s3cli ''put_object'' []
                       [(''Bucket'', PStr (S3BucketName location)), (''Body'', PStr ''''),
                        (''Key'', PStr (S3Prefix location @ ''/''))]) (\<lambda>response.
              emit (Log INFO (''Creating S3 Prefix `'' @ S3BucketName location @ ''`('' @
                                accountid @ '') on AWS #'' @ str_of w response))))
         of (evs, Inr u) \<Rightarrow> (location\<lparr>locationCreated := True\<rparr>, (evs, Inr ()))
          | (evs, Inl e) \<Rightarrow>
              (location,
               (evs @ [Log ERROR
                  (''Dataset storage location creation failed on S3 for dataset location '' @
                   locationUri location @ '' : '' @ exn_msg e)],
                Inl e)))"

definition create_bucket_policy ::
  "aws_world \<Rightarrow> string \<Rightarrow> string \<Rightarrow> string \<Rightarrow> string \<Rightarrow> unit prog" where
  "create_bucket_policy w account_id region bucket_name policy =
     try_except
       (pbind (S3_client w []
                 [(''account_id'', PStr account_id), (''region'', PStr region),
                  (''client_type'', PStr ''s3'')]) (\<lambda>s3cli.
        pbind (client_call w s3cli ''put_bucket_policy'' []
                 [(''Bucket'', PStr bucket_name), (''Policy'', PStr policy),
                  (''ConfirmRemoveSelfBucketAccess'', PBool False),
                  (''ExpectedBucketOwner'', PStr account_id)]) (\<lambda>r.
        emit (Log INFO (''Created bucket policy of '' @ bucket_name @ '' on '' @ account_id @
                          '' successfully'')))))
       catch_Exception
       (\<lambda>e. pbind (emit (Log ERROR
                (''Bucket policy created failed on bucket '' @ bucket_name @ '' of '' @
                 account_id @ '' : '' @ exn_msg e)))
              (\<lambda>u. praise e))"

definition get_bucket_policy :: "aws_world \<Rightarrow> string \<Rightarrow> string \<Rightarrow> string \<Rightarrow> pyval prog" where
  "get_bucket_policy w account_id region bucket_name =
     try_except_else
       (pbind (S3_client w []
                 [(''account_id'', PStr account_id), (''region'', PStr region),
                  (''client_type'', PStr ''s3'')]) (\<lambda>s3cli.
        client_call w s3cli ''get_bucket_policy'' []
          [(''Bucket'', PStr bucket_name), (''ExpectedBucketOwner'', PStr account_id)]))
       catch_Exception
       (\<lambda>e. pbind (emit (Log WARNING
                (''Failed to get bucket policy of '' @ bucket_name @ '' : '' @ exn_msg e)))
              (\<lambda>u. pret PNone))
       (\<lambda>response. subscript response ''Policy'')"

definition get_bucket_access_point_arn ::
  "aws_world \<Rightarrow> string \<Rightarrow> string \<Rightarrow> string \<Rightarrow> pyval prog" where
  "get_bucket_access_point_arn w account_id region access_point_name =
     try_except_else
       (pbind (S3_client w [PStr account_id, PStr region, PStr ''s3control''] []) (\<lambda>s3control.
        client_call w s3control ''get_access_point'' []
          [(''AccountId'', PStr account_id), (''Name'', PStr access_point_name)]))
       catch_Exception
       (\<lambda>e. pbind (emit (Log INFO
                (''Failed to get S3 bucket access point '' @ access_point_name @ '' on '' @
                 account_id @ '' : '' @ exn_msg e)))
              (\<lambda>u. pret PNone))
       (\<lambda>access_point. subscript access_point ''AccessPointArn'')"

definition create_bucket_access_point ::
  "aws_world \<Rightarrow> string \<Rightarrow> string \<Rightarrow> string \<Rightarrow> string \<Rightarrow> pyval prog" where
  "create_bucket_access_point w account_id region bucket_name access_point_name =
     try_except_else
       (pbind (S3_client w [PStr account_id, PStr region, PStr ''s3control''] []) (\<lambda>s3control.
        client_call w s3control ''create_access_point'' []
          [(''AccountId'', PStr account_id), (''Name'', PStr access_point_name),
           (''Bucket'', PStr bucket_name)]))
       catch_Exception
       (\<lambda>e. pbind (emit (Log ERROR
                (''S3 bucket access point creation failed for location '' @ bucket_name @
                 '' : '' @ exn_msg e)))
              (\<lambda>u. praise e))
       (\<lambda>access_point. subscript access_point ''AccessPointArn'')"

definition delete_bucket_access_point ::
  "aws_world \<Rightarrow> string \<Rightarrow> string \<Rightarrow> string \<Rightarrow> unit prog" where
  "delete_bucket_access_point w account_id region access_point_name =
     try_except
       (pbind (S3_client w [PStr account_id, PStr region, PStr ''s3control''] []) (\<lambda>s3control.
        pbind (client_call w s3control ''delete_access_point'' []
                 [(''AccountId'', PStr account_id), (''Name'', PStr access_point_name)]) (\<lambda>r.
        pret ())))
       catch_Exception
       (\<lambda>e. pbind (emit (Log ERROR
                (''Failed to delete S3 bucket access point '' @ access_point_name @ ''/'' @
                 account_id @ '' : '' @ exn_msg e)))
              (\<lambda>u. praise e))"

definition get_access_point_policy ::
  "aws_world \<Rightarrow> string \<Rightarrow> string \<Rightarrow> string \<Rightarrow> pyval prog" where
  "get_access_point_policy w account_id region access_point_name =
     try_except_else
       (pbind (S3_client w [PStr account_id, PStr region, PStr ''s3control''] []) (\<lambda>s3control.
        client_call w s3control ''get_access_point_policy'' []
          [(''AccountId'', PStr account_id), (''Name'', PStr access_point_name)]))
       catch_Exception
       (\<lambda>e. pbind (emit (Log INFO
                (''Failed to get policy of access point '' @ access_point_name @ '' on '' @
                 account_id @ '' : '' @ exn_msg e)))
              (\<lambda>u. pret PNone))
       (\<lambda>response. subscript response ''Policy'')"

definition attach_access_point_policy ::
  "aws_world \<Rightarrow> string \<Rightarrow> string \<Rightarrow> string \<Rightarrow> string \<Rightarrow> unit prog" where
  "attach_access_point_policy w account_id region access_point_name policy =
     try_except
       (pbind (S3_client w [PStr account_id, PStr region, PStr ''s3control''] []) (\<lambda>s3control.
        pbind (client_call w s3control ''put_access_point_policy'' []
                 [(''AccountId'', PStr account_id), (''Name'', PStr access_point_name),
                  (''Policy'', PStr policy)]) (\<lambda>r.
        pret ())))
       catch_Exception
       (\<lambda>e. pbind (emit (Log ERROR
                (''S3 bucket access point policy creation failed : '' @ exn_msg e)))
              (\<lambda>u. praise e))"

definition generate_access_point_policy_template :: "string \<Rightarrow> string \<Rightarrow> string \<Rightarrow> pyval" where
  "generate_access_point_policy_template principal_id access_point_arn s3_prefix =
     PDict
       [(''Version'', PStr ''2012-10-17''),
        (''Statement'',
         PList
           [PDict
              [(''Sid'', PStr (principal_id @ ''0'')),
               (''Effect'', PStr ''Allow''),
               (''Principal'', PDict [(''AWS'', PStr ''*'')]),
               (''Action'', PStr ''s3:ListBucket''),
               (''Resource'', PStr access_point_arn),
               (''Condition'',
                PDict
                  [(''StringLike'',
                    PDict
                      [(''s3:prefix'', PList [PStr (s3_prefix @ ''/*'')]),
                       (''aws:userId'', PList [PStr (principal_id @ '':*'')])])])],
            PDict
              [(''Sid'', PStr (principal_id @ ''1'')),
               (''Effect'', PStr ''Allow''),
               (''Principal'', PDict [(''AWS'', PStr ''*'')]),
               (''Action'', PStr ''s3:GetObject''),
               (''Resource'', PList [PStr (access_point_arn @ ''/object/'' @ s3_prefix @ ''/*'')]),
               (''Condition'',
                PDict
                  [(''StringLike'',
                    PDict [(''aws:userId'', PList [PStr (principal_id @ '':*'')])])])]])]"

subsection \<open>The try statements, for any outcome of their first statement\<close>









section \<open>aws/handlers/athena.py\<close>



section \<open>The database and the task dispatcher\<close>

text \<open>A task: its identifier, the URI of the entity it is about, and the path string
  that routes it to a handler.\<close>

record Task =
  taskUri :: string
  targetUri :: string
  path :: string

text \<open>The database as a handler reads it through a session: the persisted storage
  locations by their URI (the primary key).\<close>

record engine =
  locations :: "string \<Rightarrow> DatasetStorageLocation option"

fun is_DbQuery :: "event \<Rightarrow> bool" where
  "is_DbQuery (DbQuery model key) = True"
| "is_DbQuery ev = False"

definition db_queries :: "event list \<Rightarrow> event list" where
  "db_queries evs = filter is_DbQuery evs"

text \<open>
  Modelled from the spec: \<^verbatim>\<open>db.api.DatasetStorageLocation.get_location_by_uri\<close> (package
  \<^verbatim>\<open>db\<close> is not among the sources). The spec's data model says that a task's target
  must resolve to exactly one persisted entity and that absence is a hard failure: the
  lookup is one query by primary key, and it raises when no row has the URI.
\<close>

definition get_location_by_uri ::
  "(string \<Rightarrow> DatasetStorageLocation option) \<Rightarrow> string \<Rightarrow> DatasetStorageLocation prog" where
  "get_location_by_uri session location_uri =
     pbind (emit (DbQuery ''DatasetStorageLocation'' location_uri)) (\<lambda>u.
       case session location_uri of
         None \<Rightarrow> praise (Exn ObjectNotFound location_uri)
       | Some location \<Rightarrow> pret location)"

text \<open>
  \<^verbatim>\<open>S3.create_dataset_location\<close> (s3.py). The block
  \<^verbatim>\<open>with engine.scoped_session() as session\<close> gives the handler the tables of the
  engine; an exception raised inside the block leaves it.
\<close>

definition create_dataset_location ::
  "aws_world \<Rightarrow> engine \<Rightarrow> Task \<Rightarrow> DatasetStorageLocation prog" where
  "create_dataset_location w engine task =
     pbind (get_location_by_uri (locations engine) (targetUri task)) (\<lambda>location.
       case create_bucket_prefix w location of
         (location', p) \<Rightarrow> pbind p (\<lambda>u. pret location'))"

text \<open>
  Modelled from the spec: \<^verbatim>\<open>Worker\<close> (module \<^verbatim>\<open>service_handlers\<close> is not among the
  sources). The spec's task dispatcher registers handler functions under string keys,
  and on receiving a task looks the handler up by the task's path and invokes it once
  with a database connection and the task. The decorator
  \<^verbatim>\<open>@Worker.handler(path='s3.prefix.create')\<close> of s3.py is the one registration in the
  sources. A path with no handler is an error.
\<close>

definition Worker_handlers ::
  "(string \<times> (aws_world \<Rightarrow> engine \<Rightarrow> Task \<Rightarrow> DatasetStorageLocation prog)) list" where
  "Worker_handlers = [(''s3.prefix.create'', create_dataset_location)]"

definition Worker_process :: "aws_world \<Rightarrow> engine \<Rightarrow> Task \<Rightarrow> DatasetStorageLocation prog" where
  "Worker_process w engine task =
     (case map_of Worker_handlers (path task) of
        None \<Rightarrow> praise (Exn OtherException (''No handler defined for '' @ path task))
      | Some handler \<Rightarrow> handler w engine task)"

section \<open>api/Objects/Tenant/resolvers.py\<close>

text \<open>
  What the resolver calls and the sources do not hold: \<^verbatim>\<open>SessionHelper.get_account\<close>,
  the process environment, and \<^verbatim>\<open>ParameterStoreManager.update_parameter\<close>, which
  answers with a response or raises.
\<close>

record api_world =
  get_account :: "exn + string"
  environ :: "string \<Rightarrow> string option"
  update_parameter :: "(string \<times> pyval) list \<Rightarrow> exn + pyval"

text \<open>\<^verbatim>\<open>os.getenv(key, default)\<close>\<close>

definition getenv :: "(string \<Rightarrow> string option) \<Rightarrow> string \<Rightarrow> string \<Rightarrow> string" where
  "getenv env k d = (case env k of None \<Rightarrow> d | Some v \<Rightarrow> v)"

text \<open>A parameter annotated \<^verbatim>\<open>str = None\<close>: how \<^verbatim>\<open>print\<close> and an f-string render
  it, and the value passed on.\<close>

definition str_opt :: "string option \<Rightarrow> string" where
  "str_opt x = (case x of None \<Rightarrow> ''None'' | Some s \<Rightarrow> s)"

definition val_opt :: "string option \<Rightarrow> pyval" where
  "val_opt x = (case x of None \<Rightarrow> PNone | Some s \<Rightarrow> PStr s)"

fun is_ApiCall :: "event \<Rightarrow> bool" where
  "is_ApiCall (ApiCall f kwargs) = True"
| "is_ApiCall ev = False"

definition api_calls :: "event list \<Rightarrow> event list" where
  "api_calls evs = filter is_ApiCall evs"

definition update_ssm_parameter ::
  "api_world \<Rightarrow> pyval \<Rightarrow> pyval \<Rightarrow> string option \<Rightarrow> string option \<Rightarrow> pyval prog" where
  "update_ssm_parameter w context source name val =
     pbind (lift (get_account w)) (\<lambda>current_account.
     let region = getenv (environ w) ''AWS_REGION'' ''eu-west-1'';
         kwargs =
           [(''AwsAccountId'', PStr current_account),
            (''region'', PStr region),
            (''parameter_name'',
             PStr (''/dataall/'' @ getenv (environ w) ''envname'' ''local'' @
                   ''/quicksightmonitoring/'' @ str_opt name)),
            (''parameter_value'', val_opt val)]
     in pbind (emit (Print (str_opt val))) (\<lambda>u.
        pbind (emit (Print (str_opt name))) (\<lambda>u.
        pbind ([ApiCall ''ParameterStoreManager.update_parameter'' kwargs],
               update_parameter w kwargs) (\<lambda>response.
        pret response))))"

section \<open>deploy/stacks/param_store_stack.py\<close>

text \<open>
  What the stack reads from outside: the region and account of the stack, aws-cdk's
  constructor of a string parameter (given the construct id and the keyword arguments,
  the exception with which it refuses them, if it does), aws-cdk's parameter and secret
  lookups (each returning the string that \<^verbatim>\<open>str\<close> makes of the result), and the
  draws of \<^verbatim>\<open>random.choice\<close>.
\<close>

record cdk_world =
  stack_region :: string
  stack_account :: string
  new_string_parameter :: "string \<Rightarrow> (string \<times> pyval) list \<Rightarrow> exn option"
  value_for_string_parameter :: "string \<Rightarrow> exn + string"
  from_secret_complete_arn :: "string \<Rightarrow> exn + string"
  random_index :: "nat \<Rightarrow> nat"

text \<open>Reading an attribute of a class: \<^verbatim>\<open>AttributeError\<close> when the class has none of
  that name.\<close>

definition class_attribute :: "string \<Rightarrow> string list \<Rightarrow> string \<Rightarrow> unit prog" where
  "class_attribute cls attributes n =
     (if n \<in> set attributes then pret ()
      else praise (Exn AttributeError
             (''type object '' @ cls @ '' has no attribute '' @ n)))"

text \<open>The static methods of aws-cdk's \<^verbatim>\<open>aws_ssm.StringParameter\<close>.\<close>

definition StringParameter_attributes :: "string list" where
  "StringParameter_attributes =
     [''from_string_parameter_name'', ''from_string_parameter_arn'',
      ''from_string_parameter_attributes'', ''from_secure_string_parameter_attributes'',
      ''value_for_string_parameter'', ''value_for_typed_string_parameter'',
      ''value_for_typed_string_parameter_v2'', ''value_for_typed_list_parameter'',
      ''value_for_secure_string_parameter'', ''value_from_lookup'',
      ''is_construct'', ''is_resource'', ''is_owned_resource'']"

definition allowed_chars :: string where
  "allowed_chars =
     ''ABCDEFGHIJKLMNOPQRSTUVWXYZ'' @ ''abcdefghijklmnopqrstuvwxyz'' @ ''0123456789''"

definition generate_external_id :: "cdk_world \<Rightarrow> string" where
  "generate_external_id w =
     map (\<lambda>i. allowed_chars ! (random_index w i mod length allowed_chars)) [0..<32]"

text \<open>
  The nested \<^verbatim>\<open>try\<close> statements that choose the external id. Both \<^verbatim>\<open>except:\<close>
  clauses are bare. The first \<^verbatim>\<open>try\<close> reads the attribute
  \<^verbatim>\<open>value_for_string_paramete\<close> of \<^verbatim>\<open>aws_ssm.StringParameter\<close>.
\<close>

definition external_id_value :: "cdk_world \<Rightarrow> string \<Rightarrow> string prog" where
  "external_id_value w envname =
     try_except
       (let parameter_path = ''/dataall/'' @ envname @ ''/pivotRole/externalId''
        in pbind (class_attribute ''StringParameter'' StringParameter_attributes
                    ''value_for_string_paramete'') (\<lambda>u.
           lift (value_for_string_parameter w parameter_path)))
       (\<lambda>e. True)
       (\<lambda>e. let secret_id = ''dataall-externalId-'' @ envname
             in try_except
                  (lift (from_secret_complete_arn w
                     (''arn:aws:secretsmanager:'' @ stack_region w @ '':'' @ stack_account w @
                      '':secret:'' @ secret_id)))
                  (\<lambda>e. True)
                  (\<lambda>e. pret (generate_external_id w)))"

text \<open>
  \<^verbatim>\<open>aws_ssm.StringParameter(self, id, **props)\<close>: the construct is created unless
  aws-cdk refuses the arguments, in which case the constructor raises and nothing is
  created.
\<close>

definition StringParameter :: "cdk_world \<Rightarrow> string \<Rightarrow> (string \<times> pyval) list \<Rightarrow> unit prog" where
  "StringParameter w cid props =
     (case new_string_parameter w cid props of
        None \<Rightarrow> ([Construct ''aws_ssm.StringParameter'' cid props], Inr ())
      | Some e \<Rightarrow> ([], Inl e))"

text \<open>The two shapes of the call in the stack: without and with a description.\<close>

definition string_parameter :: "cdk_world \<Rightarrow> string \<Rightarrow> string \<Rightarrow> pyval \<Rightarrow> unit prog" where
  "string_parameter w cid pname v =
     StringParameter w cid [(''parameter_name'', PStr pname), (''string_value'', v)]"

definition string_parameter_described ::
  "cdk_world \<Rightarrow> string \<Rightarrow> string \<Rightarrow> pyval \<Rightarrow> string \<Rightarrow> unit prog" where
  "string_parameter_described w cid pname v d =
     StringParameter w cid
       [(''parameter_name'', PStr pname), (''string_value'', v), (''description'', PStr d)]"

text \<open>\<^verbatim>\<open>'userguide.' + custom_domain\<close>: a \<^verbatim>\<open>TypeError\<close> unless the right operand is a
  string.\<close>

fun str_plus :: "string \<Rightarrow> pyval \<Rightarrow> pyval prog" where
  "str_plus s (PStr t) = pret (PStr (s @ t))"
| "str_plus s v = praise (Exn TypeError ''can only concatenate str to str'')"

definition str_bool :: "bool \<Rightarrow> string" where
  "str_bool b = (if b then ''True'' else ''False'')"

text \<open>
  \<^verbatim>\<open>ParamStoreStack.__init__\<close>, block by block. \<open>custom_domain\<close> is \<^verbatim>\<open>None\<close> or a
  dictionary; the call \<^verbatim>\<open>super().__init__(scope, id, **kwargs)\<close> of the nested-stack
  base class (not among the sources) creates no parameter and is left out. A domain
  is usable when the two statements on it (lines 38 to 40) do not raise.
\<close>

text \<open>\<^verbatim>\<open>if custom_domain:\<close> (lines 37 to 54)\<close>

definition custom_domain_parameters :: "cdk_world \<Rightarrow> string \<Rightarrow> pyval \<Rightarrow> unit prog" where
  "custom_domain_parameters w envname custom_domain =
     (if truthy custom_domain
      then pbind (subscript custom_domain ''hosted_zone_name'') (\<lambda>frontend_alternate_domain.
           pbind (str_plus ''userguide.'' frontend_alternate_domain)
             (\<lambda>userguide_alternate_domain.
           pbind (string_parameter w (''FrontendCustomDomain'' @ envname)
                    (''/dataall/'' @ envname @ ''/frontend/custom_domain_name'')
                    frontend_alternate_domain) (\<lambda>u.
           string_parameter w (''UserGuideCustomDomain'' @ envname)
             (''/dataall/'' @ envname @ ''/userguide/custom_domain_name'')
             userguide_alternate_domain)))
      else pret ())"

text \<open>\<^verbatim>\<open>if enable_cw_canaries:\<close> (lines 56 to 68)\<close>

definition canary_parameters :: "cdk_world \<Rightarrow> string \<Rightarrow> bool \<Rightarrow> unit prog" where
  "canary_parameters w envname enable_cw_canaries =
     (if enable_cw_canaries
      then pbind (string_parameter w (''CWCanariesEnv'' @ envname)
                    (''/dataall/'' @ envname @ ''/canary/environment_account'')
                    (PStr ''updateme(e.g: 1234xxxx)'')) (\<lambda>u.
           string_parameter w (''CWCanariesRegion'' @ envname)
             (''/dataall/'' @ envname @ ''/canary/environment_region'')
             (PStr ''updateme(e.g: eu-west-1)''))
      else pret ())"

text \<open>\<^verbatim>\<open>if quicksight_enabled:\<close> (lines 70 to 82)\<close>

definition quicksight_parameters :: "cdk_world \<Rightarrow> string \<Rightarrow> bool \<Rightarrow> unit prog" where
  "quicksight_parameters w envname quicksight_enabled =
     (if quicksight_enabled
      then pbind (string_parameter w (''QSVPCConnectionIdEnv'' @ envname)
                    (''/dataall/'' @ envname @ ''/quicksightmonitoring/VPCConnectionId'')
                    (PStr ''updateme'')) (\<lambda>u.
           string_parameter w (''QSDashboardIdEnv'' @ envname)
             (''/dataall/'' @ envname @ ''/quicksightmonitoring/DashboardId'')
             (PStr ''updateme''))
      else pret ())"

text \<open>The unconditional parameters after the three blocks (lines 84 to 122).\<close>

definition pivot_role_parameters ::
  "cdk_world \<Rightarrow> string \<Rightarrow> string \<Rightarrow> bool \<Rightarrow> string \<Rightarrow> unit prog" where
  "pivot_role_parameters w envname shared_dashboard_sessions enable_pivot_role_auto_create
       pivot_role_name =
     pbind (string_parameter w (''dataallQuicksightConfiguration'' @ envname)
              (''/dataall/'' @ envname @ ''/quicksight/sharedDashboardsSessions'')
              (PStr shared_dashboard_sessions)) (\<lambda>u.
     pbind (string_parameter w (''dataallCreationPivotRole'' @ envname)
              (''/dataall/'' @ envname @ ''/pivotRole/enablePivotRoleAutoCreate'')
              (PStr (str_bool enable_pivot_role_auto_create))) (\<lambda>u.
     pbind (string_parameter_described w (''dataallPivotRoleName'' @ envname)
              (''/dataall/'' @ envname @ ''/pivotRole/pivotRoleName'')
              (PStr pivot_role_name)
              (''Stores dataall pivot role name for environment '' @ envname)) (\<lambda>u.
     pbind (external_id_value w envname) (\<lambda>external_id.
     string_parameter_described w (''dataallExternalId'' @ envname)
       (''/dataall/'' @ envname @ ''/pivotRole/externalId'')
       (PStr external_id)
       (''Stores dataall external id for environment '' @ envname)))))"

definition ParamStoreStack ::
  "cdk_world \<Rightarrow> string \<Rightarrow> string \<Rightarrow> pyval \<Rightarrow> bool \<Rightarrow> bool \<Rightarrow> string \<Rightarrow> bool \<Rightarrow> string
     \<Rightarrow> unit prog" where
  "ParamStoreStack w envname resource_prefix custom_domain enable_cw_canaries quicksight_enabled
       shared_dashboard_sessions enable_pivot_role_auto_create pivot_role_name =
     pbind (string_parameter w (''ResourcePrefixParam'' @ envname)
              (''/dataall/'' @ envname @ ''/resourcePrefix'') (PStr resource_prefix)) (\<lambda>u.
     pbind (custom_domain_parameters w envname custom_domain) (\<lambda>u.
     pbind (canary_parameters w envname enable_cw_canaries) (\<lambda>u.
     pbind (quicksight_parameters w envname quicksight_enabled) (\<lambda>u.
     pivot_role_parameters w envname shared_dashboard_sessions enable_pivot_role_auto_create
       pivot_role_name))))"


text \<open>The names of the SSM parameters a trace creates, in order.\<close>

fun parameter_name_of :: "event \<Rightarrow> string list" where
  "parameter_name_of (Construct kind cid props) =
     (if kind = ''aws_ssm.StringParameter''
      then (case map_of props ''parameter_name'' of Some (PStr n) \<Rightarrow> [n] | _ \<Rightarrow> [])
      else [])"
| "parameter_name_of ev = []"

definition ssm_parameter_names :: "event list \<Rightarrow> string list" where
  "ssm_parameter_names evs = concat (map parameter_name_of evs)"

text \<open>The names of the parameters an instantiation creates.\<close>

definition created_parameter_names ::
  "cdk_world \<Rightarrow> string \<Rightarrow> string \<Rightarrow> pyval \<Rightarrow> bool \<Rightarrow> bool \<Rightarrow> string \<Rightarrow> bool \<Rightarrow> string
     \<Rightarrow> string list" where
  "created_parameter_names w envname resource_prefix custom_domain enable_cw_canaries
       quicksight_enabled shared_dashboard_sessions enable_pivot_role_auto_create
       pivot_role_name =
     ssm_parameter_names
       (fst (ParamStoreStack w envname resource_prefix custom_domain enable_cw_canaries
               quicksight_enabled shared_dashboard_sessions enable_pivot_role_auto_create
               pivot_role_name))"

section \<open>modules/omics/cdk/omics_stack.py\<close>

record OmicsPipeline =
  label :: string
  description :: string
  pipeline_name :: string
  OmicsPipelineUri :: string
  environmentUri :: string
  SamlAdminGroupName :: string
  SamlGroupName :: string
  S3InputBucket :: string
  S3InputPrefix :: string
  S3OutputBucket :: string
  S3OutputPrefix :: string

text \<open>The environment of a pipeline. The field \<^verbatim>\<open>name\<close> of a pipeline is
  \<open>pipeline_name\<close> here; the fields \<^verbatim>\<open>name\<close> and \<^verbatim>\<open>environmentUri\<close> of an
  environment carry the prefix \<open>env_\<close>.\<close>

record Environment =
  env_name :: string
  env_environmentUri :: string
  resourcePrefix :: string

text \<open>The database as the stack reads it: the pipelines by primary key
  (\<^verbatim>\<open>session.query(OmicsPipeline).get\<close> gives \<^verbatim>\<open>None\<close> for an unknown key), and the
  lookups of package \<^verbatim>\<open>dataall.db.api\<close>, which is not among the sources.\<close>

record omics_db =
  pipelines :: "string \<Rightarrow> OmicsPipeline option"
  get_environment_by_uri :: "string \<Rightarrow> exn + Environment"
  get_environment_group :: "string \<Rightarrow> string \<Rightarrow> exn + pyval"

text \<open>
  What the stack reads and does outside Python values: the process environment,
  \<^verbatim>\<open>dataall.db.get_engine\<close>, the path of the module, the file system (each operation
  may raise), \<^verbatim>\<open>textwrap.dedent\<close>, and the region and account of the stack.
\<close>

record omics_world =
  os_environ :: "string \<Rightarrow> string option"
  db_get_engine :: "string \<Rightarrow> exn + omics_db"
  module_file :: string
  realpath :: "string \<Rightarrow> string"
  isfile :: "string \<Rightarrow> bool"
  open_write :: "string \<Rightarrow> exn option"
  remove_file :: "string \<Rightarrow> exn option"
  make_archive :: "string \<Rightarrow> string \<Rightarrow> string \<Rightarrow> exn option"
  move_file :: "string \<Rightarrow> string \<Rightarrow> exn option"
  dedent :: "string \<Rightarrow> string"
  self_region :: string
  self_account :: string

text \<open>An effect on the file system: its event, and the exception if it fails.\<close>

definition effect :: "event \<Rightarrow> exn option \<Rightarrow> unit prog" where
  "effect ev failure = ([ev], case failure of None \<Rightarrow> Inr () | Some e \<Rightarrow> Inl e)"

fun is_file_event :: "event \<Rightarrow> bool" where
  "is_file_event (FileOpenWrite p) = True"
| "is_file_event (FileWrite p t) = True"
| "is_file_event (FileRemove p) = True"
| "is_file_event (MakeArchive b f d) = True"
| "is_file_event (FileMove a b) = True"
| "is_file_event ev = False"

fun is_Construct :: "event \<Rightarrow> bool" where
  "is_Construct (Construct kind cid props) = True"
| "is_Construct ev = False"

text \<open>Reading an attribute of an object that may be \<^verbatim>\<open>None\<close>.\<close>

definition attr_of :: "'a option \<Rightarrow> ('a \<Rightarrow> 'b) \<Rightarrow> string \<Rightarrow> 'b prog" where
  "attr_of obj field n =
     (case obj of
        None \<Rightarrow> praise (Exn AttributeError (''NoneType object has no attribute '' @ n))
      | Some x \<Rightarrow> pret (field x))"

text \<open>The names module \<^verbatim>\<open>omics_stack\<close> binds: its imports, \<^verbatim>\<open>logger\<close>, the class
  and the three functions defined after the class, at module level.\<close>

definition omics_globals :: "string list" where
  "omics_globals =
     [''logging'', ''os'', ''shutil'', ''sagemaker'', ''ec2'', ''kms'', ''iam'', ''codecommit'',
      ''codebuild'', ''pipelines'', ''Stack'', ''CfnOutput'', ''Asset'', ''OmicsPipeline'',
      ''models'', ''EnvironmentGroup'', ''stack'', ''Engine'', ''get_engine'', ''Environment'',
      ''CDKNagUtil'', ''TagsUtil'', ''logger'', ''OmicsPipelineStack'', ''zip_directory'',
      ''cleanup_zip_directory'', ''write_cdk_app_file'']"

text \<open>The attributes the class body of \<^verbatim>\<open>OmicsPipelineStack\<close> defines (lines 35 to 227).
  Its base class, aws-cdk's \<^verbatim>\<open>Stack\<close>, has none of the three helper names.\<close>

definition OmicsPipelineStack_attributes :: "string list" where
  "OmicsPipelineStack_attributes =
     [''module_name'', ''get_engine'', ''get_target'', ''get_pipeline_environment'',
      ''get_env_group'', ''__init__'']"

definition self_object :: pyval where
  "self_object = PStr ''<OmicsPipelineStack object>''"

text \<open>\<^verbatim>\<open>def get_engine(self) -> Engine\<close>: one parameter.\<close>

definition get_engine :: "omics_world \<Rightarrow> pyval list \<Rightarrow> (string \<times> pyval) list \<Rightarrow> omics_db prog" where
  "get_engine w args kwargs =
     pbind (lift (py_bind ''get_engine'' [''self''] [] args kwargs)) (\<lambda>b.
       let envname = getenv (os_environ w) ''envname'' ''local''
       in lift (db_get_engine w envname))"

definition get_target :: "omics_world \<Rightarrow> string \<Rightarrow> OmicsPipeline option prog" where
  "get_target w target_uri =
     pbind (get_engine w [self_object] []) (\<lambda>engine.
     pbind (emit (DbQuery ''OmicsPipeline'' target_uri)) (\<lambda>u.
     pret (pipelines engine target_uri)))"

text \<open>\<^verbatim>\<open>get_pipeline_environment\<close> calls \<^verbatim>\<open>self.get_engine(envname=envname)\<close>.\<close>

definition get_pipeline_environment ::
  "omics_world \<Rightarrow> OmicsPipeline option \<Rightarrow> Environment prog" where
  "get_pipeline_environment w pipeline =
     (let envname = getenv (os_environ w) ''envname'' ''local''
      in pbind (get_engine w [self_object] [(''envname'', PStr envname)]) (\<lambda>engine.
         pbind (attr_of pipeline environmentUri ''environmentUri'') (\<lambda>uri.
         pbind (emit (DbQuery ''Environment'' uri)) (\<lambda>u.
         lift (get_environment_by_uri engine uri)))))"

definition get_env_group :: "omics_world \<Rightarrow> OmicsPipeline option \<Rightarrow> pyval prog" where
  "get_env_group w pipeline =
     pbind (get_engine w [self_object] []) (\<lambda>engine.
     pbind (attr_of pipeline SamlAdminGroupName ''SamlAdminGroupName'') (\<lambda>group_name.
     pbind (attr_of pipeline environmentUri ''environmentUri'') (\<lambda>uri.
     pbind (emit (DbQuery ''EnvironmentGroup'' uri)) (\<lambda>u.
     lift (get_environment_group engine group_name uri)))))"

definition zip_directory :: "omics_world \<Rightarrow> string \<Rightarrow> unit prog" where
  "zip_directory w dir =
     try_except
       (pbind (effect (MakeArchive ''code'' ''zip'' dir) (make_archive w ''code'' ''zip'' dir)) (\<lambda>u.
        effect (FileMove ''code.zip'' (dir @ ''/code.zip''))
          (move_file w ''code.zip'' (dir @ ''/code.zip''))))
       catch_Exception
       (\<lambda>e. emit (Log ERROR (''Failed to zip repository due to: '' @ exn_msg e)))"

definition cleanup_zip_directory :: "omics_world \<Rightarrow> string \<Rightarrow> unit prog" where
  "cleanup_zip_directory w dir =
     (if isfile w (dir @ ''/code.zip'')
      then effect (FileRemove (dir @ ''/code.zip'')) (remove_file w (dir @ ''/code.zip''))
      else emit (Log INFO (''Info: '' @ dir @ ''/code.zip'' @ '' Zip not found'')))"

text \<open>The f-string of \<^verbatim>\<open>write_cdk_app_file\<close> (lines 249 to 318), rendered.\<close>

definition app_text :: "OmicsPipeline \<Rightarrow> Environment \<Rightarrow> string" where
  \<open>app_text pipeline environment =
     ''\<newline>'' @
     ''    #!/usr/bin/env python3\<newline>'' @
     ''    import os\<newline>'' @
     ''    import uuid\<newline>'' @
     ''\<newline>'' @
     ''    import aws_cdk as cdk\<newline>'' @
     ''    import boto3\<newline>'' @
     ''    from cdk_nag import AwsSolutionsChecks, NagSuppressions, NagPackSuppression\<newline>'' @
     ''\<newline>'' @
     ''    from omics_pipeline.stacks.cdk_nag_exclusions import PIPELINE_STACK_CDK_NAG_EXCLUSIONS\<newline>'' @
     ''    from omics_pipeline.omics_pipeline_stack import OmicsPipelineStack\<newline>'' @
     ''\<newline>'' @
     ''\<newline>'' @
     ''    pipeline_data = dict(\<newline>'' @
     ''        pipeline_name="'' @ pipeline_name pipeline @ ''",\<newline>'' @
     ''        pipeline_uri="'' @ OmicsPipelineUri pipeline @ ''",\<newline>'' @
     ''        environment_name="'' @ env_name environment @ ''",\<newline>'' @
     ''        environment_uri="'' @ env_environmentUri environment @ ''",\<newline>'' @
     ''        environment_resourcePrefix="'' @ resourcePrefix environment @ ''",\<newline>'' @
     ''        input_bucket="'' @ S3InputBucket pipeline @ ''",\<newline>'' @
     ''        input_prefix="'' @ S3InputPrefix pipeline @ ''",\<newline>'' @
     ''        output_bucket="'' @ S3OutputBucket pipeline @ ''",\<newline>'' @
     ''        output_prefix="'' @ S3OutputPrefix pipeline @ ''",\<newline>'' @
     ''    )\<newline>'' @
     ''    print("Omics Pipeline Data", pipeline_data)\<newline>'' @
     ''    resource_prefix = "'' @ resourcePrefix environment @ ''-omics-'' @ OmicsPipelineUri pipeline @ ''"[:63]\<newline>'' @
     ''    env_resource_prefix = "'' @ resourcePrefix environment @ ''"   \<newline>'' @
     ''    app = cdk.App()\<newline>'' @
     ''\<newline>'' @
     ''    account_id = boto3.client("sts").get_caller_identity().get("Account") or os.getenv(\<newline>'' @
     ''        "CDK_DEFAULT_ACCOUNT"\<newline>'' @
     ''    )\<newline>'' @
     ''    cdk_pipeline_region = app.node.try_get_context("tooling_region") or os.getenv(\<newline>'' @
     ''        "CDK_DEFAULT_REGION"\<newline>'' @
     ''    )\<newline>'' @
     ''    git_branch = "main"\<newline>'' @
     ''    env = cdk.Environment(account=account_id, region=cdk_pipeline_region)\<newline>'' @
     ''\<newline>'' @
     ''    pipeline = OmicsPipelineStack(\<newline>'' @
     ''        app,\<newline>'' @
     ''        resource_prefix,\<newline>'' @
     ''        env=env,\<newline>'' @
     ''        git_branch=git_branch,\<newline>'' @
     ''        resource_prefix=resource_prefix,\<newline>'' @
     ''        commit_id=os.getenv("COMMIT_ID", str(uuid.uuid4())[:8]),\<newline>'' @
     ''        repository_name=resource_prefix,\<newline>'' @
     ''        env_resource_prefix=env_resource_prefix,\<newline>'' @
     ''        input_bucket="'' @ S3InputBucket pipeline @ ''",\<newline>'' @
     ''        input_prefix="'' @ S3InputPrefix pipeline @ ''",\<newline>'' @
     ''        output_bucket="'' @ S3OutputBucket pipeline @ ''",\<newline>'' @
     ''        output_prefix="'' @ S3OutputPrefix pipeline @ ''",\<newline>'' @
     ''        tags=dict(\<newline>'' @
     ''            OmicsPipelineUri="'' @ OmicsPipelineUri pipeline @ ''",\<newline>'' @
     ''            OmicsPipelineLabel="'' @ OmicsPipelineUri pipeline @ ''",\<newline>'' @
     ''            OmicsPipelineName="'' @ pipeline_name pipeline @ ''",\<newline>'' @
     ''            Team="'' @ SamlGroupName pipeline @ ''",\<newline>'' @
     ''        )\<newline>'' @
     ''    )\<newline>'' @
     ''    cdk.Aspects.of(app).add(AwsSolutionsChecks(reports=True, verbose=False))\<newline>'' @
     ''    NagSuppressions.add_stack_suppressions(\<newline>'' @
     ''        pipeline,\<newline>'' @
     ''        suppressions=[\<newline>'' @
     ''            NagPackSuppression(id=rule_suppressed["id"], reason=rule_suppressed["reason"])\<newline>'' @
     ''            for rule_suppressed in PIPELINE_STACK_CDK_NAG_EXCLUSIONS\<newline>'' @
     ''        ],\<newline>'' @
     ''        apply_to_nested_stacks=True,\<newline>'' @
     ''    )\<newline>'' @
     ''    app.synth()\<newline>'' @
     ''\<newline>'' @
     ''    ''\<close>

text \<open>
  \<^verbatim>\<open>write_cdk_app_file\<close>: the file is opened for writing, then the argument of
  \<^verbatim>\<open>text_file.write\<close> is evaluated, which reads the name \<^verbatim>\<open>textwrap\<close>.
\<close>

definition write_cdk_app_file ::
  "omics_world \<Rightarrow> string \<Rightarrow> OmicsPipeline \<Rightarrow> Environment \<Rightarrow> unit prog" where
  "write_cdk_app_file w code_dir_path pipeline environment =
     (let app = app_text pipeline environment
      in pbind (effect (FileOpenWrite (code_dir_path @ ''/app.py''))
                  (open_write w (code_dir_path @ ''/app.py''))) (\<lambda>u.
         pbind (global_name omics_globals ''textwrap'') (\<lambda>u.
         pbind (emit (FileWrite (code_dir_path @ ''/app.py'') (dedent w app))) (\<lambda>u.
         emit (Print app)))))"

text \<open>\<^verbatim>\<open>self.codebuild_policy\<close> (lines 127 to 185)\<close>

definition codebuild_policy :: "omics_world \<Rightarrow> string \<Rightarrow> pyval" where
  "codebuild_policy w resource_prefix =
     PList
       [PDict
          [(''actions'', PList [PStr ''sts:GetServiceBearerToken'']),
           (''resources'', PList [PStr ''*'']),
           (''conditions'',
            PDict [(''StringEquals'',
                    PDict [(''sts:AWSServiceName'', PStr ''codeartifact.amazonaws.com'')])])],
        PDict
          [(''actions'', PList [PStr ''ecr:GetAuthorizationToken'']),
           (''resources'', PList [PStr ''*''])],
        PDict
          [(''actions'',
            PList (map PStr
              [''codeartifact:GetAuthorizationToken'', ''codeartifact:GetRepositoryEndpoint'',
               ''codeartifact:ReadFromRepository'', ''ecr:GetDownloadUrlForLayer'',
               ''ecr:BatchGetImage'', ''ecr:BatchCheckLayerAvailability'', ''ecr:PutImage'',
               ''ecr:InitiateLayerUpload'', ''ecr:UploadLayerPart'',
               ''ecr:CompleteLayerUpload'', ''ecr:GetDownloadUrlForLayer'', ''kms:Decrypt'',
               ''kms:Encrypt'', ''kms:GenerateDataKey'', ''secretsmanager:GetSecretValue'',
               ''secretsmanager:DescribeSecret'', ''ssm:GetParametersByPath'',
               ''ssm:GetParameters'', ''ssm:GetParameter'', ''s3:Get*'', ''s3:Put*'',
               ''s3:List*'', ''codebuild:CreateReportGroup'', ''codebuild:CreateReport'',
               ''codebuild:UpdateReport'', ''codebuild:BatchPutTestCases'',
               ''codebuild:BatchPutCodeCoverages''])),
           (''resources'',
            PList (map PStr
              [''arn:aws:s3:::'' @ resource_prefix @ ''*'',
               ''arn:aws:s3:::'' @ resource_prefix @ ''*/*'',
               ''arn:aws:codebuild:'' @ self_region w @ '':'' @ self_account w @ '':project/*'' @
                 resource_prefix @ ''*'',
               ''arn:aws:secretsmanager:'' @ self_region w @ '':'' @ self_account w @
                 '':secret:*'' @ resource_prefix @ ''*'',
               ''arn:aws:kms:'' @ self_region w @ '':'' @ self_account w @ '':key/*'',
               ''arn:aws:ssm:*:'' @ self_account w @ '':parameter/*'' @ resource_prefix @ ''*'',
               ''arn:aws:ecr:'' @ self_region w @ '':'' @ self_account w @ '':repository/'' @
                 resource_prefix @ ''*'',
               ''arn:aws:codeartifact:'' @ self_region w @ '':'' @ self_account w @
                 '':repository/'' @ resource_prefix @ ''*'',
               ''arn:aws:codeartifact:'' @ self_region w @ '':'' @ self_account w @
                 '':domain/'' @ resource_prefix @ ''*'']))]]"

text \<open>
  Lines 92 to 227 of \<^verbatim>\<open>__init__\<close>, for a pipeline and an environment already read:
  the three helpers are looked up as attributes of the class, then the CDK constructs
  are made from the archive and the resource prefix.
\<close>

definition provision ::
  "omics_world \<Rightarrow> OmicsPipeline option \<Rightarrow> Environment \<Rightarrow> unit prog" where
  "provision w pipeline pipeline_environment =
     pbind (attr_of pipeline OmicsPipelineUri ''OmicsPipelineUri'') (\<lambda>pipeline_uri.
     let resource_prefix =
           take 63 (resourcePrefix pipeline_environment @ ''-omics-'' @ pipeline_uri);
         code_dir_path =
           realpath w (module_file w @ ''/../../../../blueprints/omics_pipeline'')
     in
     pbind (class_attribute ''OmicsPipelineStack'' OmicsPipelineStack_attributes
              ''write_cdk_app_file'') (\<lambda>u.
     pbind (attr_of pipeline (\<lambda>p. write_cdk_app_file w code_dir_path p pipeline_environment)
              ''name'') (\<lambda>write. pbind write (\<lambda>u.
     pbind (class_attribute ''OmicsPipelineStack'' OmicsPipelineStack_attributes
              ''cleanup_zip_directory'') (\<lambda>u.
     pbind (cleanup_zip_directory w code_dir_path) (\<lambda>u.
     pbind (class_attribute ''OmicsPipelineStack'' OmicsPipelineStack_attributes
              ''zip_directory'') (\<lambda>u.
     pbind (zip_directory w code_dir_path) (\<lambda>u.
     pbind (attr_of pipeline pipeline_name ''name'') (\<lambda>pname.
     pbind (emit (Construct ''Asset'' (pname @ ''-asset'')
              [(''path'', PStr (code_dir_path @ ''/code.zip''))])) (\<lambda>u.
     pbind (emit (Construct ''codecommit.Repository'' ''Repository''
              [(''repository_name'', PStr resource_prefix),
               (''code'', PStr (pname @ ''-asset'')),
               (''description'',
                PStr (''Code repository for pipeline '' @ resource_prefix @
                      ''. Generated by data.all.''))])) (\<lambda>u.
     pbind (emit (Construct ''iam.Role'' (resource_prefix @ ''-pipeline-role'')
              [(''role_name'', PStr (resource_prefix @ ''-pipeline-role'')),
               (''assumed_by'',
                PList [PStr ''codebuild.amazonaws.com'', PStr ''codepipeline.amazonaws.com'',
                       PStr (self_account w)]),
               (''policy'', codebuild_policy w resource_prefix)])) (\<lambda>u.
     pbind (emit (Construct ''pipelines.CodePipeline'' (resource_prefix @ ''-pipeline'')
              [(''pipeline_name'', PStr resource_prefix),
               (''publish_assets_in_parallel'', PBool False),
               (''self_mutation'', PBool True),
               (''synth'',
                PDict
                  [(''id'', PStr ''Synth''),
                   (''input'',
                    PDict [(''repository'', PStr ''Repository''), (''branch'', PStr ''main'')]),
                   (''environment_variables'',
                    PDict [(''PIPELINE_URI'', PStr pipeline_uri),
                           (''ENV_RESOURCE_PREFIX'',
                            PStr (resourcePrefix pipeline_environment))]),
                   (''commands'',
                    PList [PStr ''n 16'', PStr ''npm install -g aws-cdk'',
                           PStr ''pip install -r requirements.txt'', PStr ''cdk synth'']),
                   (''role_policy_statements'', codebuild_policy w resource_prefix)]),
               (''cross_account_keys'', PBool True)])) (\<lambda>u.
     pbind (emit (ApiCall ''TagsUtil.add_tags'' [(''target_type'', PStr ''omics_pipeline'')]))
       (\<lambda>u.
     emit (ApiCall ''CDKNagUtil.check_rules'' [])))))))))))))))"

text \<open>
  \<^verbatim>\<open>OmicsPipelineStack.__init__\<close>: the description of the stack is built from two reads
  of the pipeline, the pipeline is read a third time, then its environment and its
  environment group, and line 92 onwards follows.
\<close>

definition OmicsPipelineStack_init :: "omics_world \<Rightarrow> string \<Rightarrow> string \<Rightarrow> unit prog" where
  "OmicsPipelineStack_init w stack_id target_uri =
     pbind (get_target w target_uri) (\<lambda>target1.
     pbind (attr_of target1 label ''label'') (\<lambda>pipeline_label.
     pbind (get_target w target_uri) (\<lambda>target2.
     pbind (attr_of target2 description ''description'') (\<lambda>pipeline_description.
     pbind (emit (Construct ''Stack'' stack_id
              [(''description'',
                PStr (take 1024
                  (''Cloud formation stack of OMICS PIPELINE: '' @ pipeline_label @
                   ''; URI: '' @ target_uri @ ''; DESCRIPTION: '' @ pipeline_description)))]))
       (\<lambda>u.
     pbind (get_target w target_uri) (\<lambda>pipeline.
     pbind (get_pipeline_environment w pipeline) (\<lambda>pipeline_environment.
     pbind (get_env_group w pipeline) (\<lambda>env_group.
     provision w pipeline pipeline_environment))))))))"

section \<open>Concrete worlds and inputs\<close>


text \<open>A world in which every session is granted and every service call answers.\<close>

definition granting_world :: aws_world where
  "granting_world =
     \<lparr>remote_session = (\<lambda>kwargs. Inr (Session ''remote'')),
      get_session = Inr (Session ''central''),
      client_api = (\<lambda>c operation args kwargs. Inr (PDict [(''ETag'', PStr ''0'')])),
      str_of = (\<lambda>v. ''{}''),
      json_dumps = (\<lambda>v. ''{}'')\<rparr>"




definition location0 :: DatasetStorageLocation where
  "location0 =
     \<lparr>locationUri = ''loc-1'', AWSAccountId = ''111122223333'', location_region = ''eu-west-1'',
      S3BucketName = ''bucket'', S3Prefix = ''raw'', locationCreated = False\<rparr>"

definition engine0 :: engine where
  "engine0 = \<lparr>locations = (\<lambda>uri. if uri = ''loc-1'' then Some location0 else None)\<rparr>"

definition task0 :: Task where
  "task0 = \<lparr>taskUri = ''task-1'', targetUri = ''loc-1'', path = ''s3.prefix.create''\<rparr>"

definition task_missing :: Task where
  "task_missing = \<lparr>taskUri = ''task-2'', targetUri = ''loc-9'', path = ''s3.prefix.create''\<rparr>"

definition api_world0 :: api_world where
  "api_world0 =
     \<lparr>get_account = Inr ''111122223333'',
      environ = (\<lambda>k. if k = ''envname'' then Some ''prod'' else None),
      update_parameter = (\<lambda>kwargs. Inr (PDict [(''Version'', PInt 2)]))\<rparr>"

definition cdk_world0 :: cdk_world where
  "cdk_world0 =
     \<lparr>stack_region = ''eu-west-1'',
      stack_account = ''111122223333'',
      new_string_parameter = (\<lambda>cid props. None),
      value_for_string_parameter = (\<lambda>p. Inr ''external-id''),
      from_secret_complete_arn = (\<lambda>arn. Inr ''secret''),
      random_index = (\<lambda>i. i)\<rparr>"

definition pipeline0 :: OmicsPipeline where
  "pipeline0 =
     \<lparr>label = ''variant calling'', description = ''nightly run'', pipeline_name = ''vc'',
      OmicsPipelineUri = ''pipe-1'', environmentUri = ''env-1'',
      SamlAdminGroupName = ''admins'', SamlGroupName = ''team'',
      S3InputBucket = ''in'', S3InputPrefix = ''reads'',
      S3OutputBucket = ''out'', S3OutputPrefix = ''calls''\<rparr>"

definition environment0 :: Environment where
  "environment0 =
     \<lparr>env_name = ''genomics'', env_environmentUri = ''env-1'', resourcePrefix = ''dataall''\<rparr>"

definition omics_db0 :: omics_db where
  "omics_db0 =
     \<lparr>pipelines = (\<lambda>uri. if uri = ''pipe-1'' then Some pipeline0 else None),
      get_environment_by_uri = (\<lambda>uri. Inr environment0),
      get_environment_group = (\<lambda>g uri. Inr PNone)\<rparr>"

definition omics_world0 :: omics_world where
  "omics_world0 =
     \<lparr>os_environ = (\<lambda>k. None),
      db_get_engine = (\<lambda>envname. Inr omics_db0),
      module_file = ''/dataall/modules/omics/cdk/omics_stack.py'',
      realpath = (\<lambda>p. ''/dataall/blueprints/omics_pipeline''),
      isfile = (\<lambda>p. False),
      open_write = (\<lambda>p. None),
      remove_file = (\<lambda>p. None),
      make_archive = (\<lambda>b f d. None),
      move_file = (\<lambda>a b. None),
      dedent = (\<lambda>t. t),
      self_region = ''eu-west-1'',
      self_account = ''111122223333''\<rparr>"

definition unexpected_envname :: exn where
  "unexpected_envname = Exn TypeError ''get_engine() got an unexpected keyword argument envname''"

section \<open>Properties\<close>

subsection \<open>Calls of \<open>S3_client\<close> that cannot bind their arguments\<close>

lemma S3_client_keywords_without_config:
  "S3_client w [] [(''account_id'', a), (''region'', r), (''client_type'', c)] =
     ([], Inl missing_config)"
  by (simp add: S3_client_def py_bind_def pbind_def lift_def missing_config_def)

lemma S3_client_positional_without_config:
  "S3_client w [a, r, c] [] = ([], Inl missing_config)"
  by (simp add: S3_client_def py_bind_def pbind_def lift_def missing_config_def)

lemma S3_client_region_and_config_only:
  "S3_client w [] [(''region'', r), (''config'', c)] = ([], Inl missing_account_and_type)"
  by (simp add: S3_client_def py_bind_def pbind_def lift_def missing_account_and_type_def)

lemma exn_msg_missing_config:
  "exn_msg missing_config = ''client() missing required positional arguments: config''"
  by (simp add: missing_config_def)

subsection \<open>The S3 handlers as written\<close>

lemma get_bucket_policy_always:
  "get_bucket_policy w account_id region bucket_name =
     ([Log WARNING (''Failed to get bucket policy of '' @ bucket_name @ '' : '' @
                    exn_msg missing_config)], Inr PNone)"
  by (simp add: get_bucket_policy_def S3_client_keywords_without_config try_except_else_def
      pbind_def catch_Exception_def emit_def pret_def)

lemma get_bucket_access_point_arn_always:
  "get_bucket_access_point_arn w account_id region access_point_name =
     ([Log INFO (''Failed to get S3 bucket access point '' @ access_point_name @ '' on '' @
                 account_id @ '' : '' @ exn_msg missing_config)], Inr PNone)"
  by (simp add: get_bucket_access_point_arn_def S3_client_positional_without_config
      try_except_else_def pbind_def catch_Exception_def emit_def pret_def)

lemma get_access_point_policy_always:
  "get_access_point_policy w account_id region access_point_name =
     ([Log INFO (''Failed to get policy of access point '' @ access_point_name @ '' on '' @
                 account_id @ '' : '' @ exn_msg missing_config)], Inr PNone)"
  by (simp add: get_access_point_policy_def S3_client_positional_without_config
      try_except_else_def pbind_def catch_Exception_def emit_def pret_def)

lemma create_bucket_prefix_always:
  "create_bucket_prefix w location =
     (location,
      ([Log ERROR (''Dataset storage location creation failed on S3 for dataset location '' @
                   locationUri location @ '' : '' @ exn_msg missing_config)],
       Inl missing_config))"
  by (simp add: create_bucket_prefix_def S3_client_keywords_without_config pbind_def)

lemma create_bucket_policy_always:
  "create_bucket_policy w account_id region bucket_name policy =
     ([Log ERROR (''Bucket policy created failed on bucket '' @ bucket_name @ '' of '' @
                  account_id @ '' : '' @ exn_msg missing_config)], Inl missing_config)"
  by (simp add: create_bucket_policy_def S3_client_keywords_without_config try_except_def
      try_except_else_def pbind_def catch_Exception_def emit_def praise_def)

lemma create_bucket_access_point_always:
  "create_bucket_access_point w account_id region bucket_name access_point_name =
     ([Log ERROR (''S3 bucket access point creation failed for location '' @ bucket_name @
                  '' : '' @ exn_msg missing_config)], Inl missing_config)"
  by (simp add: create_bucket_access_point_def S3_client_positional_without_config
      try_except_else_def pbind_def catch_Exception_def emit_def praise_def)

lemma delete_bucket_access_point_always:
  "delete_bucket_access_point w account_id region access_point_name =
     ([Log ERROR (''Failed to delete S3 bucket access point '' @ access_point_name @ ''/'' @
                  account_id @ '' : '' @ exn_msg missing_config)], Inl missing_config)"
  by (simp add: delete_bucket_access_point_def S3_client_positional_without_config
      try_except_def try_except_else_def pbind_def catch_Exception_def emit_def praise_def)

lemma attach_access_point_policy_always:
  "attach_access_point_policy w account_id region access_point_name policy =
     ([Log ERROR (''S3 bucket access point policy creation failed : '' @
                  exn_msg missing_config)], Inl missing_config)"
  by (simp add: attach_access_point_policy_def S3_client_positional_without_config
      try_except_def try_except_else_def pbind_def catch_Exception_def emit_def praise_def)

subsection \<open>The try statements with a client already made\<close>

















subsection \<open>The read-only lookups\<close>






subsection \<open>The mutating S3 operations\<close>



text \<open>
  C3 at a concrete input. In a world where \<^verbatim>\<open>put_object\<close> would answer,
  \<^verbatim>\<open>create_bucket_prefix\<close> on a location not yet created makes no call on a client at
  all, logs one error, raises the \<^verbatim>\<open>TypeError\<close> of \<^verbatim>\<open>S3.client\<close> and leaves the
  location as it was.
\<close>

theorem create_bucket_prefix_issues_no_put_object:
  "client_api granting_world c ''put_object'' []
     [(''Bucket'', PStr ''bucket''), (''Body'', PStr []), (''Key'', PStr ''raw/'')] =
     Inr (PDict [(''ETag'', PStr ''0'')])
   \<and> create_bucket_prefix granting_world location0 =
       (location0,
        ([Log ERROR (''Dataset storage location creation failed on S3 for dataset location '' @
                     ''loc-1'' @ '' : '' @ exn_msg missing_config)],
         Inl missing_config))
   \<and> client_calls (fst (snd (create_bucket_prefix granting_world location0))) = []
   \<and> locationCreated (fst (create_bucket_prefix granting_world location0)) = False"
  by (simp add: create_bucket_prefix_always client_calls_def granting_world_def location0_def)

subsection \<open>The handler of s3.prefix.create\<close>

lemma create_dataset_location_trace:
  "fst (create_dataset_location w engine task) =
     DbQuery ''DatasetStorageLocation'' (targetUri task) #
       (case locations engine (targetUri task) of
          None \<Rightarrow> []
        | Some location \<Rightarrow> fst (snd (create_bucket_prefix w location)))"
  by (simp add: create_dataset_location_def get_location_by_uri_def pbind_def emit_def
      praise_def pret_def split: option.splits sum.splits prod.splits)

text \<open>
  C4. The handler of \<^verbatim>\<open>s3.prefix.create\<close> resolves the task's \<^verbatim>\<open>targetUri\<close> with one
  query by primary key, and that query is the first event of its trace, before any call on
  an AWS client. When no storage location has the URI the handler raises, and the query
  is its whole trace: no AWS call is attempted and the lookup is not retried. When a
  location has the URI, everything after the query is what \<^verbatim>\<open>create_bucket_prefix\<close>
  does on that location, and the trace holds exactly one query.
\<close>

theorem create_dataset_location_resolves_first:
  "(locations engine (targetUri task) = None \<longrightarrow>
      create_dataset_location w engine task =
        ([DbQuery ''DatasetStorageLocation'' (targetUri task)],
         Inl (Exn ObjectNotFound (targetUri task))))
   \<and> (locations engine (targetUri task) = Some location \<longrightarrow>
        fst (create_dataset_location w engine task) =
          DbQuery ''DatasetStorageLocation'' (targetUri task) #
            fst (snd (create_bucket_prefix w location))
        \<and> db_queries (fst (snd (create_bucket_prefix w location))) = [])
   \<and> db_queries (fst (create_dataset_location w engine task)) =
       [DbQuery ''DatasetStorageLocation'' (targetUri task)]"
proof -
  have none: "create_dataset_location w engine task =
        ([DbQuery ''DatasetStorageLocation'' (targetUri task)],
         Inl (Exn ObjectNotFound (targetUri task)))"
    if "locations engine (targetUri task) = None"
    using that
    by (simp add: create_dataset_location_def get_location_by_uri_def pbind_def emit_def
        praise_def)
  have prefix_trace: "db_queries (fst (snd (create_bucket_prefix w l))) = []" for l
    by (simp add: create_bucket_prefix_always db_queries_def)
  have some: "fst (create_dataset_location w engine task) =
          DbQuery ''DatasetStorageLocation'' (targetUri task) #
            fst (snd (create_bucket_prefix w location))"
    if "locations engine (targetUri task) = Some location"
    using that by (simp add: create_dataset_location_trace)
  have once: "db_queries (fst (create_dataset_location w engine task)) =
       [DbQuery ''DatasetStorageLocation'' (targetUri task)]"
    using prefix_trace
    by (simp add: create_dataset_location_trace db_queries_def split: option.splits)
  from none some prefix_trace once show ?thesis
    by blast
qed

theorem create_dataset_location_resolves_first_witness:
  "locations engine0 (targetUri task_missing) = None
   \<and> create_dataset_location granting_world engine0 task_missing =
       ([DbQuery ''DatasetStorageLocation'' ''loc-9''], Inl (Exn ObjectNotFound ''loc-9''))
   \<and> locations engine0 (targetUri task0) = Some location0
   \<and> fst (create_dataset_location granting_world engine0 task0) =
       DbQuery ''DatasetStorageLocation'' ''loc-1'' #
         fst (snd (create_bucket_prefix granting_world location0))
   \<and> db_queries (fst (create_dataset_location granting_world engine0 task0)) =
       [DbQuery ''DatasetStorageLocation'' ''loc-1'']"
proof -
  have m: "locations engine0 (targetUri task_missing) = None"
    by (simp add: engine0_def task_missing_def)
  have p: "locations engine0 (targetUri task0) = Some location0"
    by (simp add: engine0_def task0_def)
  have u: "targetUri task_missing = ''loc-9''" "targetUri task0 = ''loc-1''"
    by (simp_all add: task_missing_def task0_def)
  show ?thesis
    using create_dataset_location_resolves_first [of engine0 task_missing granting_world location0]
      create_dataset_location_resolves_first [of engine0 task0 granting_world location0]
      m p u
    by (simp add: db_queries_def)
qed

text \<open>
  C5 at a concrete input. The dispatcher finds \<^verbatim>\<open>create_dataset_location\<close> under the
  key \<^verbatim>\<open>s3.prefix.create\<close> and calls it with the engine and the task; the storage
  location of the task exists, and the handler still does not return it: it raises the
  \<^verbatim>\<open>TypeError\<close> of \<^verbatim>\<open>S3.client\<close>, called without \<^verbatim>\<open>config\<close>.
\<close>

theorem dispatched_handler_raises_TypeError:
  "map_of Worker_handlers (path task0) = Some create_dataset_location
   \<and> locations engine0 (targetUri task0) = Some location0
   \<and> Worker_process granting_world engine0 task0 =
       ([DbQuery ''DatasetStorageLocation'' ''loc-1'',
         Log ERROR (''Dataset storage location creation failed on S3 for dataset location '' @
                    ''loc-1'' @ '' : '' @ exn_msg missing_config)],
        Inl missing_config)"
  by (simp add: Worker_process_def Worker_handlers_def task0_def engine0_def
      create_dataset_location_def get_location_by_uri_def create_bucket_prefix_always
      pbind_def emit_def pret_def location0_def)

subsection \<open>The resolver of updateSsmParameter\<close>

text \<open>
  C6. For every name and value, once the account lookup has returned, the resolver calls
  \<^verbatim>\<open>ParameterStoreManager.update_parameter\<close> exactly once, for the parameter named
  \<open>'/dataall/' + envname + '/quicksightmonitoring/' + name\<close> (\<open>envname\<close> read from the
  environment, \<^verbatim>\<open>local\<close> when unset) and with the given value; what the resolver returns
  is what that call returned, unchanged (and what it raises is what that call raised).
\<close>

theorem update_ssm_parameter_updates_one:
  assumes "get_account w = Inr current_account"
  shows "api_calls (fst (update_ssm_parameter w context source (Some name) (Some val))) =
           [ApiCall ''ParameterStoreManager.update_parameter''
              [(''AwsAccountId'', PStr current_account),
               (''region'', PStr (getenv (environ w) ''AWS_REGION'' ''eu-west-1'')),
               (''parameter_name'',
                PStr (''/dataall/'' @ getenv (environ w) ''envname'' ''local'' @
                      ''/quicksightmonitoring/'' @ name)),
               (''parameter_value'', PStr val)]]
         \<and> snd (update_ssm_parameter w context source (Some name) (Some val)) =
             update_parameter w
               [(''AwsAccountId'', PStr current_account),
                (''region'', PStr (getenv (environ w) ''AWS_REGION'' ''eu-west-1'')),
                (''parameter_name'',
                 PStr (''/dataall/'' @ getenv (environ w) ''envname'' ''local'' @
                       ''/quicksightmonitoring/'' @ name)),
                (''parameter_value'', PStr val)]"
  using assms
  by (simp add: update_ssm_parameter_def pbind_def lift_def emit_def pret_def api_calls_def
      str_opt_def val_opt_def Let_def split: sum.splits)

theorem update_ssm_parameter_updates_one_witness:
  "get_account api_world0 = Inr ''111122223333''
   \<and> api_calls (fst (update_ssm_parameter api_world0 PNone PNone (Some ''DashboardId'') (Some ''d-1''))) =
       [ApiCall ''ParameterStoreManager.update_parameter''
          [(''AwsAccountId'', PStr ''111122223333''),
           (''region'', PStr ''eu-west-1''),
           (''parameter_name'', PStr ''/dataall/prod/quicksightmonitoring/DashboardId''),
           (''parameter_value'', PStr ''d-1'')]]
   \<and> snd (update_ssm_parameter api_world0 PNone PNone (Some ''DashboardId'') (Some ''d-1'')) =
       Inr (PDict [(''Version'', PInt 2)])"
proof -
  have a: "get_account api_world0 = Inr ''111122223333''"
    by (simp add: api_world0_def)
  show ?thesis
    using update_ssm_parameter_updates_one [OF a, of PNone PNone "''DashboardId''" "''d-1''"] a
    by (simp add: api_world0_def getenv_def)
qed

subsection \<open>The parameters of ParamStoreStack\<close>















subsubsection \<open>Every name created carries the prefix\<close>







subsubsection \<open>The names of a run that completes\<close>






subsubsection \<open>When a run completes\<close>








lemma param_store_stack_run_none:
  "created_parameter_names cdk_world0 ''prod'' ''dataall'' PNone False False ''anonymous''
     False ''dataallPivotRole'' =
     [''/dataall/prod/resourcePrefix'',
      ''/dataall/prod/quicksight/sharedDashboardsSessions'',
      ''/dataall/prod/pivotRole/enablePivotRoleAutoCreate'',
      ''/dataall/prod/pivotRole/pivotRoleName'', ''/dataall/prod/pivotRole/externalId'']"
  by (simp add: created_parameter_names_def ssm_parameter_names_def
      ParamStoreStack_def custom_domain_parameters_def canary_parameters_def
      quicksight_parameters_def pivot_role_parameters_def external_id_value_def
      class_attribute_def StringParameter_attributes_def try_except_def try_except_else_def
      pbind_def string_parameter_def string_parameter_described_def StringParameter_def
      emit_def pret_def praise_def lift_def str_bool_def cdk_world0_def)



subsection \<open>The omics pipeline stack\<close>

lemma pbind_Inl: "pbind (evs, Inl e) f = (evs, Inl e)"
  by (simp add: pbind_def)

lemma pbind_Inr: "pbind (evs, Inr v) f = (evs @ fst (f v), snd (f v))"
  by (simp add: pbind_def split: prod.splits)

lemma get_pipeline_environment_raises:
  "get_pipeline_environment w pipeline = ([], Inl unexpected_envname)"
  by (simp add: get_pipeline_environment_def get_engine_def py_bind_def lift_def pbind_Inl
      unexpected_envname_def)

lemma get_engine_self:
  "get_engine w [self_object] [] =
     ([], db_get_engine w (getenv (os_environ w) ''envname'' ''local''))"
  by (simp add: get_engine_def py_bind_def lift_def pbind_Inr)

lemma get_target_eq:
  "get_target w target_uri =
     (case db_get_engine w (getenv (os_environ w) ''envname'' ''local'') of
        Inl e \<Rightarrow> ([], Inl e)
      | Inr engine \<Rightarrow> ([DbQuery ''OmicsPipeline'' target_uri], Inr (pipelines engine target_uri)))"
  by (simp add: get_target_def get_engine_self pbind_Inl pbind_Inr emit_def pret_def
      split: sum.splits)

lemma OmicsPipelineStack_init_eq:
  "OmicsPipelineStack_init w stack_id target_uri =
     (case db_get_engine w (getenv (os_environ w) ''envname'' ''local'') of
        Inl e \<Rightarrow> ([], Inl e)
      | Inr engine \<Rightarrow>
          (case pipelines engine target_uri of
             None \<Rightarrow>
               ([DbQuery ''OmicsPipeline'' target_uri],
                Inl (Exn AttributeError (''NoneType object has no attribute '' @ ''label'')))
           | Some p \<Rightarrow>
               ([DbQuery ''OmicsPipeline'' target_uri,
                 DbQuery ''OmicsPipeline'' target_uri,
                 Construct ''Stack'' stack_id
                   [(''description'',
                     PStr (take 1024
                       (''Cloud formation stack of OMICS PIPELINE: '' @ label p @
                        ''; URI: '' @ target_uri @ ''; DESCRIPTION: '' @ description p)))],
                 DbQuery ''OmicsPipeline'' target_uri],
                Inl unexpected_envname)))"
  by (simp add: OmicsPipelineStack_init_def get_target_eq get_pipeline_environment_raises
      attr_of_def pbind_Inl pbind_Inr emit_def pret_def praise_def
      split: sum.splits option.splits)

text \<open>
  C8 at every input, and at a concrete one. Constructing \<^verbatim>\<open>OmicsPipelineStack\<close> never
  completes and never touches the file system: no app.py is written, no code.zip is
  removed or made. With the pipeline and its environment persisted, the constructor
  reads the pipeline three times, creates the stack, and then raises the \<^verbatim>\<open>TypeError\<close>
  of \<^verbatim>\<open>self.get_engine(envname=envname)\<close>, a call of a method that takes no such
  parameter.
\<close>

theorem omics_stack_never_constructed:
  "(\<exists>e. snd (OmicsPipelineStack_init w stack_id target_uri) = Inl e)
   \<and> filter is_file_event (fst (OmicsPipelineStack_init w stack_id target_uri)) = []
   \<and> OmicsPipelineStack_init omics_world0 ''stack'' ''pipe-1'' =
       ([DbQuery ''OmicsPipeline'' ''pipe-1'',
         DbQuery ''OmicsPipeline'' ''pipe-1'',
         Construct ''Stack'' ''stack''
           [(''description'',
             PStr ''Cloud formation stack of OMICS PIPELINE: variant calling; URI: pipe-1; DESCRIPTION: nightly run'')],
         DbQuery ''OmicsPipeline'' ''pipe-1''],
        Inl unexpected_envname)"
proof -
  have raises: "\<exists>e. snd (OmicsPipelineStack_init w stack_id target_uri) = Inl e"
    by (simp add: OmicsPipelineStack_init_eq split: sum.splits option.splits)
  have files: "filter is_file_event (fst (OmicsPipelineStack_init w stack_id target_uri)) = []"
    by (simp add: OmicsPipelineStack_init_eq split: sum.splits option.splits)
  have run: "OmicsPipelineStack_init omics_world0 ''stack'' ''pipe-1'' =
       ([DbQuery ''OmicsPipeline'' ''pipe-1'',
         DbQuery ''OmicsPipeline'' ''pipe-1'',
         Construct ''Stack'' ''stack''
           [(''description'',
             PStr ''Cloud formation stack of OMICS PIPELINE: variant calling; URI: pipe-1; DESCRIPTION: nightly run'')],
         DbQuery ''OmicsPipeline'' ''pipe-1''],
        Inl unexpected_envname)"
    by (simp add: OmicsPipelineStack_init_eq omics_world0_def omics_db0_def pipeline0_def)
  from raises files run show ?thesis
    by blast
qed

lemma helpers_are_not_class_attributes:
  "class_attribute ''OmicsPipelineStack'' OmicsPipelineStack_attributes ''write_cdk_app_file'' =
     ([], Inl (Exn AttributeError
        ''type object OmicsPipelineStack has no attribute write_cdk_app_file''))"
  by (simp add: class_attribute_def OmicsPipelineStack_attributes_def praise_def)

lemma write_cdk_app_file_raises:
  "\<exists>evs e. write_cdk_app_file w code_dir_path pipeline environment = (evs, Inl e)
      \<and> (\<forall>t. FileWrite (code_dir_path @ ''/app.py'') t \<notin> set evs)"
  by (simp add: write_cdk_app_file_def Let_def effect_def global_name_def omics_globals_def
      pbind_def praise_def split: option.splits)

subsection \<open>Presigned URLs\<close>

lemma get_presigned_post_try_no_json:
  assumes "client_api w c ''get_bucket_acl'' []
             [(''Bucket'', PStr bucket), (''ExpectedBucketOwner'', PStr account_id)] = Inr acl"
    and "client_api w c ''generate_presigned_post'' []
             [(''Bucket'', PStr bucket), (''Key'', PStr key), (''ExpiresIn'', PInt (15 * 60))] =
           Inr response"
  shows "snd (get_presigned_post_try w c account_id bucket key) =
           Inl (Exn NameError ''name json is not defined'')"
  using assms
  by (simp add: get_presigned_post_try_def try_except_def try_except_else_def pbind_def
      client_call_def global_name_def s3_globals_def praise_def catch_ClientError_def)

lemma get_presigned_post_try_raises:
  "\<exists>e. snd (get_presigned_post_try w c account_id bucket key) = Inl e"
  by (simp add: get_presigned_post_try_def try_except_def try_except_else_def pbind_def
      client_call_def global_name_def s3_globals_def praise_def pret_def
      split: sum.splits prod.splits)

text \<open>
  C9. For every region, bucket and key, \<^verbatim>\<open>S3.get_presigned_url\<close> returns no URL: its call
  of \<^verbatim>\<open>S3.client\<close> passes \<^verbatim>\<open>region\<close> and \<^verbatim>\<open>config\<close> only, so binding the required
  parameters \<^verbatim>\<open>account_id\<close> and \<^verbatim>\<open>client_type\<close> raises \<^verbatim>\<open>TypeError\<close> before any
  call on a client (the trace is empty). \<^verbatim>\<open>S3.get_presigned_post\<close> fails in the same way,
  and its \<^verbatim>\<open>try\<close> statement, even when given a client, never returns a value: when both
  service calls answer, the success branch reads the name \<^verbatim>\<open>json\<close>, which the module
  never imports.
\<close>

theorem presigned_url_never_returned:
  "get_presigned_url w region bucket key = ([], Inl missing_account_and_type)
   \<and> get_presigned_post w account_id region bucket key = ([], Inl missing_account_and_type)
   \<and> exn_class_of missing_account_and_type = TypeError
   \<and> (\<exists>e. snd (get_presigned_post_try w c account_id bucket key) = Inl e)
   \<and> snd (get_presigned_post_try granting_world c account_id bucket key) =
       Inl (Exn NameError ''name json is not defined'')"
proof -
  have url: "get_presigned_url w region bucket key = ([], Inl missing_account_and_type)"
    by (simp add: get_presigned_url_def S3_client_region_and_config_only pbind_def)
  have post: "get_presigned_post w account_id region bucket key =
                ([], Inl missing_account_and_type)"
    by (simp add: get_presigned_post_def S3_client_region_and_config_only pbind_def)
  have cls: "exn_class_of missing_account_and_type = TypeError"
    by (simp add: missing_account_and_type_def)
  have json: "snd (get_presigned_post_try granting_world c account_id bucket key) =
                Inl (Exn NameError ''name json is not defined'')"
    by (rule get_presigned_post_try_no_json) (simp_all add: granting_world_def)
  from url post cls json get_presigned_post_try_raises show ?thesis
    by blast
qed

subsection \<open>The access point policy\<close>

text \<open>
  C10. \<^verbatim>\<open>S3.generate_access_point_policy_template\<close> is a function of its three arguments
  alone. The dictionary it returns has Version 2012-10-17 and a Statement list of exactly
  two Allow statements: the first, with Sid \<open>principal_id + '0'\<close>, grants s3:ListBucket on
  \<open>access_point_arn\<close> under the StringLike condition s3:prefix \<open>s3_prefix + '/*'\<close> and
  aws:userId \<open>principal_id + ':*'\<close>; the second, with Sid \<open>principal_id + '1'\<close>, grants
  s3:GetObject on \<open>access_point_arn + '/object/' + s3_prefix + '/*'\<close> under the StringLike
  condition aws:userId \<open>principal_id + ':*'\<close>.
\<close>

theorem access_point_policy_template:
  "dict_get (generate_access_point_policy_template principal_id access_point_arn s3_prefix)
     ''Version'' = Some (PStr ''2012-10-17'')
   \<and> (\<exists>first second.
        dict_get (generate_access_point_policy_template principal_id access_point_arn s3_prefix)
          ''Statement'' = Some (PList [first, second])
        \<and> dict_get first ''Sid'' = Some (PStr (principal_id @ ''0''))
        \<and> dict_get first ''Effect'' = Some (PStr ''Allow'')
        \<and> dict_get first ''Action'' = Some (PStr ''s3:ListBucket'')
        \<and> dict_get first ''Resource'' = Some (PStr access_point_arn)
        \<and> dict_get first ''Condition'' =
            Some (PDict [(''StringLike'',
                    PDict [(''s3:prefix'', PList [PStr (s3_prefix @ ''/*'')]),
                           (''aws:userId'', PList [PStr (principal_id @ '':*'')])])])
        \<and> dict_get second ''Sid'' = Some (PStr (principal_id @ ''1''))
        \<and> dict_get second ''Effect'' = Some (PStr ''Allow'')
        \<and> dict_get second ''Action'' = Some (PStr ''s3:GetObject'')
        \<and> dict_get second ''Resource'' =
            Some (PList [PStr (access_point_arn @ ''/object/'' @ s3_prefix @ ''/*'')])
        \<and> dict_get second ''Condition'' =
            Some (PDict [(''StringLike'',
                    PDict [(''aws:userId'', PList [PStr (principal_id @ '':*'')])])]))"
  by (simp add: generate_access_point_policy_template_def)

end
